theory Spec2Isabelle
  imports Complex_Main
begin

section \<open>PathHero: the persistence and authentication module\<close>

text \<open>
  A shallow embedding of \<^verbatim>\<open>src/Server/util/database.js\<close>. Every exported operation
  returns a promise; the model gives the settled promise as a sum (\<open>Inl\<close> rejected or
  thrown, \<open>Inr\<close> resolved) together with the world after the call. The world holds the
  two collections, the JavaScript objects of the caller that the module can reach through
  a reference, and what the environment decides: whether the storage engine fails, the
  identifiers it hands out and the random strings.
\<close>

subsection \<open>Errors and documents\<close>

text \<open>
  The source wraps every cause in \<^verbatim>\<open>new Error(error)\<close>; the model keeps which
  collaborator raised it: the storage engine, the hashing library, or the JavaScript
  runtime (a property written on \<^verbatim>\<open>undefined\<close>).
\<close>

datatype error = StoreError string | HashError string | TypeError string

text \<open>
  The Users collection (source lines 66-69): \<^verbatim>\<open>_id\<close>, \<^verbatim>\<open>userid\<close>,
  \<^verbatim>\<open>secret\<close>. A document may lack its secret, which is why \<^verbatim>\<open>validateUser\<close>
  tests \<^verbatim>\<open>!doc.secret\<close>.
\<close>

record user =
  user_id :: string
  userid :: string
  secret :: "string option"

text \<open>The Hunts collection (source lines 138-164). A field a JavaScript object may lack is optional.\<close>

record geo_point =
  lat :: real
  lng :: real

record pin =
  answer :: string
  geo :: geo_point
  clues :: "string list"
  answerField :: string

record hunt_info =
  numOfLocations :: int
  huntTimeEst :: real
  huntDistance :: real

record hunt =
  hunt_id :: "string option"
  creatorId :: "string option"
  url :: "string option"
  huntName :: "string option"
  huntDesc :: "string option"
  huntInfo :: "hunt_info option"
  pins :: "pin list"

text \<open>The value \<^verbatim>\<open>validateUser\<close> resolves to: \<^verbatim>\<open>{id: ..., message: ...}\<close>, where \<^verbatim>\<open>id\<close> may be \<^verbatim>\<open>null\<close>.\<close>

record auth_result =
  auth_id :: "string option"
  message :: string

subsection \<open>Configuration, libraries and the world\<close>

text \<open>
  \<^verbatim>\<open>serverConfig\<close> and the bcrypt library are fixed for the life of the process and are
  taken as parameters. \<^verbatim>\<open>bcrypt.hash(password, null, null, cb)\<close> draws a salt, so the
  hash takes the password and the entropy of the salt; both library calls hand an error
  or a result to their callback.
\<close>

record env =
  playSubdomain :: string
  domain :: string
  bcrypt_hash :: "string \<Rightarrow> string \<Rightarrow> string + string"
  bcrypt_compare :: "string \<Rightarrow> string \<Rightarrow> string + bool"

text \<open>
  \<open>store_fault\<close> is the failure the storage engine answers every query with, if any.
  \<open>oid_supply\<close> and \<open>entropy\<close> are the identifiers and random strings the environment
  will hand out, read at the positions \<open>oid_next\<close> and \<open>entropy_next\<close>.
\<close>

record world =
  Users :: "user list"
  Hunts :: "hunt list"
  heap :: "nat \<Rightarrow> hunt option"
  store_fault :: "string option"
  oid_supply :: "nat \<Rightarrow> string"
  oid_next :: nat
  entropy :: "nat \<Rightarrow> string"
  entropy_next :: nat

definition ObjectID_new :: "world \<Rightarrow> string \<times> world" where
  "ObjectID_new w = (oid_supply w (oid_next w), w\<lparr>oid_next := Suc (oid_next w)\<rparr>)"

definition Math_random_toString :: "world \<Rightarrow> string \<times> world" where
  "Math_random_toString w = (entropy w (entropy_next w), w\<lparr>entropy_next := Suc (entropy_next w)\<rparr>)"

subsection \<open>Identifiers of the storage engine\<close>

text \<open>
  The driver accepts as an identifier a string of 12 raw bytes or of 24 hexadecimal
  characters and throws on anything else; an identifier prints as 24 lower-case
  hexadecimal characters, which is how stored documents carry it here.
\<close>

definition hexDigits :: string where
  "hexDigits = ''0123456789abcdef''"

definition isHexChar :: "char \<Rightarrow> bool" where
  "isHexChar c = (c \<in> set ''0123456789abcdefABCDEF'')"

definition toLowerHex :: "char \<Rightarrow> char" where
  "toLowerHex c =
     (if c = CHR ''A'' then CHR ''a'' else if c = CHR ''B'' then CHR ''b''
      else if c = CHR ''C'' then CHR ''c'' else if c = CHR ''D'' then CHR ''d''
      else if c = CHR ''E'' then CHR ''e'' else if c = CHR ''F'' then CHR ''f'' else c)"

definition hexByte :: "char \<Rightarrow> string" where
  "hexByte c = [hexDigits ! ((of_char c :: nat) div 16), hexDigits ! ((of_char c :: nat) mod 16)]"

definition ObjectID_cast :: "string \<Rightarrow> error + string" where
  "ObjectID_cast s =
     (if length s = 12 then Inr (concat (map hexByte s))
      else if length s = 24 \<and> list_all isHexChar s then Inr (map toLowerHex s)
      else Inl (StoreError ''Argument passed in must be a single String of 12 bytes or a string of 24 hex characters''))"

subsection \<open>The collections, as the module calls them\<close>

text \<open>
  The storage library (monk, over MongoDB) is a collaborator outside the repository. Each
  operation below is one call that the module makes, with the query and the options it
  passes, and answers what the library answers: a failure of the engine, or the result of
  the query on the collection.
\<close>

text \<open>
  \<^verbatim>\<open>findOne({userid: username})\<close>: the first matching document, or \<^verbatim>\<open>null\<close>.
\<close>

definition users_findOne :: "string \<Rightarrow> world \<Rightarrow> error + user option" where
  "users_findOne uid w =
     (case store_fault w of
        Some e \<Rightarrow> Inl (StoreError e)
      | None \<Rightarrow> Inr (find (\<lambda>d. userid d = uid) (Users w)))"

text \<open>
  \<^verbatim>\<open>findAndModify({userid: userid}, {$setOnInsert: {userid: userid, secret: hash}},
  {upsert: true, 'new': false})\<close>: a matching document is left as it is and returned; with
  no match a document is inserted under an identifier of the engine, and the answer is the
  state before the call, \<^verbatim>\<open>null\<close>.
\<close>

definition users_findAndModify :: "string \<Rightarrow> string \<Rightarrow> world \<Rightarrow> (error + user option) \<times> world" where
  "users_findAndModify uid hash w =
     (case store_fault w of
        Some e \<Rightarrow> (Inl (StoreError e), w)
      | None \<Rightarrow>
          (case find (\<lambda>d. userid d = uid) (Users w) of
             Some d \<Rightarrow> (Inr (Some d), w)
           | None \<Rightarrow>
               (case ObjectID_new w of
                  (i, w') \<Rightarrow>
                    (Inr None,
                     w'\<lparr>Users := Users w' @ [\<lparr>user_id = i, userid = uid, secret = Some hash\<rparr>]\<rparr>))))"

text \<open>\<^verbatim>\<open>hunts.id()\<close>: a new identifier.\<close>

definition hunts_id :: "world \<Rightarrow> string \<times> world" where
  "hunts_id w = ObjectID_new w"

text \<open>
  \<^verbatim>\<open>insert(doc)\<close>: the engine gives a document without \<^verbatim>\<open>_id\<close> one, refuses a
  second document under a stored \<^verbatim>\<open>_id\<close>, and answers with the inserted document.
\<close>

definition hunts_insert :: "hunt \<Rightarrow> world \<Rightarrow> (error + hunt) \<times> world" where
  "hunts_insert doc w =
     (case store_fault w of
        Some e \<Rightarrow> (Inl (StoreError e), w)
      | None \<Rightarrow>
          (case hunt_id doc of
             None \<Rightarrow>
               (case ObjectID_new w of
                  (i, w') \<Rightarrow>
                    (Inr (doc\<lparr>hunt_id := Some i\<rparr>),
                     w'\<lparr>Hunts := Hunts w' @ [doc\<lparr>hunt_id := Some i\<rparr>]\<rparr>))
           | Some i \<Rightarrow>
               if \<exists>d \<in> set (Hunts w). hunt_id d = Some i
               then (Inl (StoreError ''E11000 duplicate key error''), w)
               else (Inr doc, w\<lparr>Hunts := Hunts w @ [doc]\<rparr>)))"

fun replaceFirst :: "('a \<Rightarrow> bool) \<Rightarrow> 'a \<Rightarrow> 'a list \<Rightarrow> 'a list" where
  "replaceFirst P y [] = []"
| "replaceFirst P y (x # xs) = (if P x then y # xs else x # replaceFirst P y xs)"

text \<open>
  \<^verbatim>\<open>update({_id: hunt._id}, hunt)\<close>: the identifier of the query is cast (an
  \<^verbatim>\<open>undefined\<close> one matches nothing); the first matching document is replaced by the
  given one as a whole; the answer is the number of documents changed.
\<close>

definition hunts_update :: "string option \<Rightarrow> hunt \<Rightarrow> world \<Rightarrow> (error + nat) \<times> world" where
  "hunts_update q doc w =
     (case q of
        None \<Rightarrow>
          (case store_fault w of
             Some e \<Rightarrow> (Inl (StoreError e), w)
           | None \<Rightarrow> (Inr 0, w))
      | Some s \<Rightarrow>
          (case ObjectID_cast s of
             Inl e \<Rightarrow> (Inl e, w)
           | Inr k \<Rightarrow>
               (case store_fault w of
                  Some e \<Rightarrow> (Inl (StoreError e), w)
                | None \<Rightarrow>
                    if \<exists>d \<in> set (Hunts w). hunt_id d = Some k
                    then (Inr 1,
                          w\<lparr>Hunts := replaceFirst (\<lambda>d. hunt_id d = Some k)
                                        (doc\<lparr>hunt_id := Some k\<rparr>) (Hunts w)\<rparr>)
                    else (Inr 0, w))))"

text \<open>\<^verbatim>\<open>find(query)\<close>: every matching document, in storage order.\<close>

definition hunts_find :: "(hunt \<Rightarrow> bool) \<Rightarrow> world \<Rightarrow> error + hunt list" where
  "hunts_find q w =
     (case store_fault w of
        Some e \<Rightarrow> Inl (StoreError e)
      | None \<Rightarrow> Inr (filter q (Hunts w)))"

text \<open>\<^verbatim>\<open>remove({_id: huntid})\<close>: removes the matching documents; the answer is their number.\<close>

definition hunts_remove :: "string \<Rightarrow> world \<Rightarrow> (error + nat) \<times> world" where
  "hunts_remove s w =
     (case ObjectID_cast s of
        Inl e \<Rightarrow> (Inl e, w)
      | Inr k \<Rightarrow>
          (case store_fault w of
             Some e \<Rightarrow> (Inl (StoreError e), w)
           | None \<Rightarrow>
               (Inr (length (filter (\<lambda>d. hunt_id d = Some k) (Hunts w))),
                w\<lparr>Hunts := filter (\<lambda>d. hunt_id d \<noteq> Some k) (Hunts w)\<rparr>)))"

text \<open>\<^verbatim>\<open>findOne({_id: huntid})\<close>: the matching document, or \<^verbatim>\<open>null\<close>.\<close>

definition hunts_findOne :: "string \<Rightarrow> world \<Rightarrow> error + hunt option" where
  "hunts_findOne s w =
     (case ObjectID_cast s of
        Inl e \<Rightarrow> Inl e
      | Inr k \<Rightarrow>
          (case store_fault w of
             Some e \<Rightarrow> Inl (StoreError e)
           | None \<Rightarrow> Inr (find (\<lambda>d. hunt_id d = Some k) (Hunts w))))"

subsection \<open>The module\<close>

text \<open>
  \<^verbatim>\<open>resolveMonkPromise(monkPromise, key)\<close> (lines 17-29): without a key the promise
  resolves to the item, with a key to \<^verbatim>\<open>item[key]\<close>; the key is given as the field it
  reads.
\<close>

definition resolveMonkPromise :: "error + 'a \<Rightarrow> error + 'a" where
  "resolveMonkPromise monkPromise =
     (case monkPromise of Inr item \<Rightarrow> Inr item | Inl e \<Rightarrow> Inl e)"

definition resolveMonkPromiseKey :: "error + 'a \<Rightarrow> ('a \<Rightarrow> 'b) \<Rightarrow> error + 'b" where
  "resolveMonkPromiseKey monkPromise key =
     (case monkPromise of Inr item \<Rightarrow> Inr (key item) | Inl e \<Rightarrow> Inl e)"

text \<open>\<^verbatim>\<open>hashPassword\<close> (lines 35-47) and \<^verbatim>\<open>validatePassword\<close> (lines 53-64).\<close>

definition hashPassword :: "env \<Rightarrow> string \<Rightarrow> world \<Rightarrow> (error + string) \<times> world" where
  "hashPassword E password w =
     (case Math_random_toString w of
        (salt, w') \<Rightarrow>
          (case bcrypt_hash E password salt of
             Inl e \<Rightarrow> (Inl (HashError e), w')
           | Inr h \<Rightarrow> (Inr h, w')))"

definition validatePassword :: "env \<Rightarrow> string \<Rightarrow> string \<Rightarrow> error + bool" where
  "validatePassword E password secret' =
     (case bcrypt_compare E password secret' of
        Inl e \<Rightarrow> Inl (HashError e)
      | Inr isMatch \<Rightarrow> Inr isMatch)"

text \<open>
  \<^verbatim>\<open>findOrCreateUser\<close> (lines 76-102). The password may be missing; \<^verbatim>\<open>password ||
  Math.random().toString()\<close> replaces a missing or empty one. The promise resolves to the
  \<^verbatim>\<open>doc\<close> that \<^verbatim>\<open>findAndModify\<close> answers with.
\<close>

definition findOrCreateUser ::
  "env \<Rightarrow> string \<Rightarrow> string option \<Rightarrow> world \<Rightarrow> (error + user option) \<times> world" where
  "findOrCreateUser E uid password w =
     (case (if password = None \<or> password = Some [] then Math_random_toString w
            else (the password, w)) of
        (password', w1) \<Rightarrow>
          (case hashPassword E password' w1 of
             (Inl e, w2) \<Rightarrow> (Inl e, w2)
           | (Inr hash, w2) \<Rightarrow>
               (case users_findAndModify uid hash w2 of
                  (Inl e, w3) \<Rightarrow> (Inl e, w3)
                | (Inr doc, w3) \<Rightarrow> (Inr doc, w3))))"

text \<open>\<^verbatim>\<open>validateUser\<close> (lines 110-135), with its fixed secret for the missing user.\<close>

definition dummySecret :: string where
  "dummySecret = ''$2a$10$alyHIMMFmX4dDzTB8FwtBu2UxL1oQzdiM9lYjI66XfUDit7n2z1Tu''"

definition chosenSecret :: "user option \<Rightarrow> string" where
  "chosenSecret doc =
     (case doc of
        None \<Rightarrow> dummySecret
      | Some d \<Rightarrow>
          (case secret d of
             None \<Rightarrow> dummySecret
           | Some s \<Rightarrow> if s = [] then dummySecret else s))"

definition validateUser ::
  "env \<Rightarrow> string \<Rightarrow> string \<Rightarrow> world \<Rightarrow> (error + auth_result) \<times> world" where
  "validateUser E username password w =
     (case users_findOne username w of
        Inl e \<Rightarrow> (Inl e, w)
      | Inr doc \<Rightarrow>
          (case validatePassword E password (chosenSecret doc) of
             Inl e \<Rightarrow> (Inl e, w)
           | Inr isMatch \<Rightarrow>
               (case doc of
                  None \<Rightarrow>
                    (Inr \<lparr>auth_id = None, message = ''Incorrect user name or password''\<rparr>, w)
                | Some d \<Rightarrow>
                    if \<not> isMatch
                    then (Inr \<lparr>auth_id = None, message = ''Incorrect user name or password''\<rparr>, w)
                    else (Inr \<lparr>auth_id = Some (userid d), message = ''success''\<rparr>, w))))"

text \<open>
  \<^verbatim>\<open>addHunt\<close> (lines 170-183). The hunt is an object of the caller, reached through its
  address; the two assignments write into that object before the insert is issued.
\<close>

definition addHunt :: "env \<Rightarrow> nat \<Rightarrow> world \<Rightarrow> (error + string option) \<times> world" where
  "addHunt E a w =
     (case heap w a of
        None \<Rightarrow> (Inl (TypeError ''Cannot set property _id of undefined''), w)
      | Some h \<Rightarrow>
          (case hunts_id w of
             (i, w1) \<Rightarrow>
               (let h1 = h\<lparr>hunt_id := Some i\<rparr>;
                    h2 = h1\<lparr>url := Some (concat [''http://'', playSubdomain E, ''.'', domain E, ''/'', i])\<rparr>;
                    w2 = w1\<lparr>heap := (heap w1)(a \<mapsto> h2)\<rparr>
                in (case hunts_insert h2 w2 of
                      (r, w3) \<Rightarrow> (resolveMonkPromiseKey r url, w3)))))"

text \<open>\<^verbatim>\<open>updateHunt\<close> (lines 190-193); the hunt is only read.\<close>

definition updateHunt :: "hunt \<Rightarrow> world \<Rightarrow> (error + nat) \<times> world" where
  "updateHunt h w =
     (case hunts_update (hunt_id h) h w of
        (promise, w') \<Rightarrow> (resolveMonkPromise promise, w'))"

text \<open>\<^verbatim>\<open>getUserHunts\<close> (lines 200-203) and \<^verbatim>\<open>getAllHunts\<close> (lines 234-237).\<close>

definition getUserHunts :: "string \<Rightarrow> world \<Rightarrow> (error + hunt list) \<times> world" where
  "getUserHunts uid w = (resolveMonkPromise (hunts_find (\<lambda>d. creatorId d = Some uid) w), w)"

definition getAllHunts :: "world \<Rightarrow> (error + hunt list) \<times> world" where
  "getAllHunts w = (resolveMonkPromise (hunts_find (\<lambda>d. True) w), w)"

text \<open>
  \<^verbatim>\<open>removeHuntbyId\<close> (lines 210-216) and \<^verbatim>\<open>getHuntById\<close> (lines 222-228), each with
  its guard on the length of the identifier (identifiers are ASCII, so the length of the
  JavaScript string is the number of its characters here).
\<close>

definition zeroId :: string where
  "zeroId = ''000000000000000000000000''"

definition removeHuntbyId :: "string \<Rightarrow> world \<Rightarrow> (error + nat) \<times> world" where
  "removeHuntbyId huntid w =
     (let huntid' = (if length huntid \<noteq> 12 \<and> length huntid \<noteq> 24 then zeroId else huntid)
      in (case hunts_remove huntid' w of
            (promise, w') \<Rightarrow> (resolveMonkPromise promise, w')))"

definition getHuntById :: "string \<Rightarrow> world \<Rightarrow> (error + hunt option) \<times> world" where
  "getHuntById huntid w =
     (let huntid' = (if length huntid \<noteq> 12 \<and> length huntid \<noteq> 24 then zeroId else huntid)
      in (resolveMonkPromise (hunts_findOne huntid' w), w))"

subsection \<open>Identifiers handed out\<close>

text \<open>
  The only hunts the module stores are those of \<^verbatim>\<open>addHunt\<close>, each under the identifier
  that \<^verbatim>\<open>hunts.id()\<close> handed out for it: every stored hunt carries an identifier read
  from the supply at an earlier position.
\<close>

definition hunts_issued :: "world \<Rightarrow> bool" where
  "hunts_issued w =
     (\<forall>d \<in> set (Hunts w). \<exists>k < oid_next w. hunt_id d = Some (oid_supply w k))"

subsection \<open>A sample environment and sample worlds\<close>

text \<open>
  A toy hashing library (the hash is the salt and the password behind a marker, and a
  password verifies when the hash ends in it), and an empty store.
\<close>

definition E0 :: env where
  "E0 = \<lparr>playSubdomain = ''play'', domain = ''pathhero.com'',
         bcrypt_hash = (\<lambda>p s. Inr (''$'' @ s @ p)),
         bcrypt_compare = (\<lambda>p h. Inr (drop 3 h = p))\<rparr>"

definition W0 :: world where
  "W0 = \<lparr>Users = [], Hunts = [], heap = Map.empty, store_fault = None,
         oid_supply = (\<lambda>n. if n = 0 then ''54759eb3c090d83494e2d804''
                             else ''54759eb3c090d83494e2d805''),
         oid_next = 0, entropy = (\<lambda>n. ''s0''), entropy_next = 0\<rparr>"

definition alice :: user where
  "alice = \<lparr>user_id = ''54759eb3c090d83494e2d804'', userid = ''alice'',
            secret = Some ''$s0secret''\<rparr>"

definition W1 :: world where
  "W1 = W0\<lparr>Users := [alice]\<rparr>"

definition W1_down :: world where
  "W1_down = W1\<lparr>store_fault := Some ''connection refused''\<rparr>"

definition carol :: user where
  "carol = \<lparr>user_id = ''54759eb3c090d83494e2d803'', userid = ''carol'', secret = None\<rparr>"

definition W_carol :: world where
  "W_carol = W0\<lparr>Users := [alice, carol]\<rparr>"

text \<open>A hunt object of the caller at address 0, and a store that holds the hunt.\<close>

definition H0 :: hunt where
  "H0 = \<lparr>hunt_id = None, creatorId = Some ''alice'', url = None,
         huntName = Some ''Park Quest'', huntDesc = None,
         huntInfo = Some \<lparr>numOfLocations = 1, huntTimeEst = 2, huntDistance = 3\<rparr>,
         pins = [\<lparr>answer = ''oak'', geo = \<lparr>lat = 37, lng = -122\<rparr>, clues = [''tall''],
                  answerField = ''tree''\<rparr>]\<rparr>"

definition W_heap :: world where
  "W_heap = W0\<lparr>heap := [0 \<mapsto> H0]\<rparr>"

definition H1 :: hunt where
  "H1 = H0\<lparr>hunt_id := Some ''54759eb3c090d83494e2d804'',
           url := Some ''http://play.pathhero.com/54759eb3c090d83494e2d804''\<rparr>"

definition W_hunt :: world where
  "W_hunt = W0\<lparr>Hunts := [H1], oid_next := 1\<rparr>"

definition H1_edit :: hunt where
  "H1_edit = H1\<lparr>url := Some ''http://example.org/elsewhere'', huntName := Some ''Harbour Quest''\<rparr>"

text \<open>The store that holds the hunt, with a second hunt object of the caller at address 1.\<close>

definition W_heap2 :: world where
  "W_heap2 = W_hunt\<lparr>heap := [0 \<mapsto> H1, 1 \<mapsto> H0]\<rparr>"

section \<open>Properties\<close>

subsection \<open>Lookups\<close>

lemma find_userid: "find (\<lambda>d. userid d = u) xs = Some d \<Longrightarrow> userid d = u"
  by (induction xs) (auto split: if_splits)

lemma find_absent: "\<forall>d \<in> set xs. \<not> P d \<Longrightarrow> find P xs = None"
  by (simp add: find_None_iff)

lemma find_append_new: "\<forall>d \<in> set xs. \<not> P d \<Longrightarrow> P y \<Longrightarrow> find P (xs @ [y]) = Some y"
  by (induction xs) auto

lemma filter_append_new: "\<forall>d \<in> set xs. \<not> P d \<Longrightarrow> P y \<Longrightarrow> filter P (xs @ [y]) = [y]"
  by (induction xs) auto

lemma find_Some_mem: "find P xs = Some d \<Longrightarrow> d \<in> set xs \<and> P d"
  by (induction xs) (auto split: if_splits)

subsection \<open>Validating a user\<close>

text \<open>
  C1. When the lookup and the comparison both answer, \<^verbatim>\<open>validateUser\<close> resolves to
  \<^verbatim>\<open>{id: null, message: 'Incorrect user name or password'}\<close> if no user with that
  userid exists or the password does not verify against the chosen hash (the stored
  secret, or the fixed one), and to \<^verbatim>\<open>{id: userid, message: 'success'}\<close> otherwise. The
  missing user and the wrong password give the same result.
\<close>

theorem validateUser_outcome:
  assumes "store_fault w = None"
    and "bcrypt_compare E password
           (chosenSecret (find (\<lambda>d. userid d = username) (Users w))) = Inr isMatch"
  shows "fst (validateUser E username password w) =
           Inr (if (\<forall>d \<in> set (Users w). userid d \<noteq> username) \<or> \<not> isMatch
                then \<lparr>auth_id = None, message = ''Incorrect user name or password''\<rparr>
                else \<lparr>auth_id = Some username, message = ''success''\<rparr>)"
proof (cases "find (\<lambda>d. userid d = username) (Users w)")
  case None
  then have "\<forall>d \<in> set (Users w). userid d \<noteq> username"
    by (simp add: find_None_iff)
  with None assms show ?thesis
    by (simp add: validateUser_def users_findOne_def validatePassword_def)
next
  case (Some d)
  then have "userid d = username" and "d \<in> set (Users w)"
    by (auto simp: find_Some_iff)
  with Some assms show ?thesis
    by (auto simp: validateUser_def users_findOne_def validatePassword_def)
qed

theorem validateUser_outcome_witness:
  "fst (validateUser E0 ''alice'' ''wrong'' W1) =
     Inr \<lparr>auth_id = None, message = ''Incorrect user name or password''\<rparr> \<and>
   fst (validateUser E0 ''bob'' ''secret'' W1) =
     Inr \<lparr>auth_id = None, message = ''Incorrect user name or password''\<rparr> \<and>
   fst (validateUser E0 ''alice'' ''secret'' W1) =
     Inr \<lparr>auth_id = Some ''alice'', message = ''success''\<rparr>"
  using validateUser_outcome [where w = W1 and E = E0 and password = "''wrong''"
      and username = "''alice''" and isMatch = False]
    validateUser_outcome [where w = W1 and E = E0 and password = "''secret''"
      and username = "''bob''" and isMatch = False]
    validateUser_outcome [where w = W1 and E = E0 and password = "''secret''"
      and username = "''alice''" and isMatch = True]
  by (simp add: W1_def W0_def E0_def alice_def chosenSecret_def dummySecret_def)

text \<open>
  C8. \<^verbatim>\<open>validateUser\<close> leaves the world as it found it, whatever the outcome. A
  rejection that is a StoreError is the failure of the lookup itself, and a password that
  does not match is a resolved, negative result, not a rejection.
\<close>

theorem validateUser_frame:
  "snd (validateUser E username password w) = w \<and>
   (\<forall>e. fst (validateUser E username password w) = Inl (StoreError e) \<longrightarrow>
        users_findOne username w = Inl (StoreError e)) \<and>
   (\<forall>doc. users_findOne username w = Inr doc \<and>
          bcrypt_compare E password (chosenSecret doc) = Inr False \<longrightarrow>
        fst (validateUser E username password w) =
          Inr \<lparr>auth_id = None, message = ''Incorrect user name or password''\<rparr>)"
  by (auto simp: validateUser_def validatePassword_def split: sum.splits option.splits)

theorem validateUser_frame_witness:
  "snd (validateUser E0 ''alice'' ''wrong'' W1) = W1 \<and>
   fst (validateUser E0 ''alice'' ''wrong'' W1) =
     Inr \<lparr>auth_id = None, message = ''Incorrect user name or password''\<rparr> \<and>
   fst (validateUser E0 ''alice'' ''secret'' W1_down) = Inl (StoreError ''connection refused'') \<and>
   users_findOne ''alice'' W1_down = Inl (StoreError ''connection refused'')"
  using validateUser_frame [where E = E0 and username = "''alice''" and password = "''wrong''"
      and w = W1]
    validateUser_frame [where E = E0 and username = "''alice''" and password = "''secret''"
      and w = W1_down]
  by (simp add: W1_down_def W1_def W0_def E0_def alice_def chosenSecret_def users_findOne_def
      validateUser_def)

text \<open>
  C10. When a User record exists for the username but carries no secret (none, or an empty
  one), the password is compared with the fixed hash
  \<^verbatim>\<open>$2a$10$alyHIMMFmX4dDzTB8FwtBu2UxL1oQzdiM9lYjI66XfUDit7n2z1Tu\<close> and the outcome is
  that of this comparison: a password that matches it is authenticated, the call resolving
  to \<^verbatim>\<open>{id: userid, message: 'success'}\<close>; one that does not match resolves to the
  negative result; a comparison that fails rejects.
\<close>

theorem validateUser_decoy_compare:
  assumes "store_fault w = None"
    and "find (\<lambda>d. userid d = username) (Users w) = Some d"
    and "secret d = None \<or> secret d = Some []"
  shows "fst (validateUser E username password w) =
           (case bcrypt_compare E password
                   ''$2a$10$alyHIMMFmX4dDzTB8FwtBu2UxL1oQzdiM9lYjI66XfUDit7n2z1Tu'' of
              Inl e \<Rightarrow> Inl (HashError e)
            | Inr isMatch \<Rightarrow>
                Inr (if isMatch then \<lparr>auth_id = Some username, message = ''success''\<rparr>
                     else \<lparr>auth_id = None, message = ''Incorrect user name or password''\<rparr>))"
  using assms find_userid [OF assms(2)]
  by (auto simp: validateUser_def users_findOne_def validatePassword_def chosenSecret_def
      dummySecret_def split: sum.splits)

theorem validateUser_decoy_compare_witness:
  "fst (validateUser E0 ''carol''
          ''$10$alyHIMMFmX4dDzTB8FwtBu2UxL1oQzdiM9lYjI66XfUDit7n2z1Tu'' W_carol) =
     Inr \<lparr>auth_id = Some ''carol'', message = ''success''\<rparr> \<and>
   fst (validateUser E0 ''carol'' ''nope'' W_carol) =
     Inr \<lparr>auth_id = None, message = ''Incorrect user name or password''\<rparr>"
  using validateUser_decoy_compare [where w = W_carol and E = E0 and username = "''carol''"
      and d = carol
      and password = "''$10$alyHIMMFmX4dDzTB8FwtBu2UxL1oQzdiM9lYjI66XfUDit7n2z1Tu''"]
    validateUser_decoy_compare [where w = W_carol and E = E0 and username = "''carol''"
      and d = carol and password = "''nope''"]
  by (simp add: W_carol_def W0_def E0_def alice_def carol_def)

subsection \<open>Finding or creating a user\<close>

text \<open>What a call leaves when the user is new, and when the user exists.\<close>

lemma findOrCreateUser_new:
  assumes "store_fault w = None"
    and "\<forall>d \<in> set (Users w). userid d \<noteq> uid"
    and "pw \<noteq> []"
    and "bcrypt_hash E pw (entropy w (entropy_next w)) = Inr h"
  shows "findOrCreateUser E uid (Some pw) w =
           (Inr None,
            w\<lparr>Users := Users w @
                 [\<lparr>user_id = oid_supply w (oid_next w), userid = uid, secret = Some h\<rparr>],
              oid_next := Suc (oid_next w), entropy_next := Suc (entropy_next w)\<rparr>)"
  using assms
  by (simp add: findOrCreateUser_def hashPassword_def Math_random_toString_def
      users_findAndModify_def ObjectID_new_def find_absent)

lemma findOrCreateUser_existing:
  assumes "\<exists>d \<in> set (Users w). userid d = uid"
  shows "Users (snd (findOrCreateUser E uid password w)) = Users w"
proof -
  from assms obtain d where "find (\<lambda>d. userid d = uid) (Users w) = Some d"
    by (cases "find (\<lambda>d. userid d = uid) (Users w)") (auto simp: find_None_iff)
  then show ?thesis
    by (auto simp: findOrCreateUser_def hashPassword_def Math_random_toString_def
        users_findAndModify_def split: sum.splits option.splits prod.splits)
qed

text \<open>A call that resolves leaves a record for the userid.\<close>

lemma users_findAndModify_has_user:
  assumes "users_findAndModify uid hash w = (Inr doc, w')"
  shows "\<exists>d \<in> set (Users w'). userid d = uid"
proof (cases "find (\<lambda>d. userid d = uid) (Users w)")
  case None
  with assms show ?thesis
    by (auto simp: users_findAndModify_def ObjectID_new_def split: option.splits)
next
  case (Some d)
  then have "d \<in> set (Users w) \<and> userid d = uid"
    by (rule find_Some_mem)
  with Some assms show ?thesis
    by (auto simp: users_findAndModify_def split: option.splits)
qed

lemma findOrCreateUser_resolved_has_user:
  assumes "fst (findOrCreateUser E uid password w) = Inr doc"
  shows "\<exists>d \<in> set (Users (snd (findOrCreateUser E uid password w))). userid d = uid"
proof -
  obtain pw w1 where p: "(if password = None \<or> password = Some [] then Math_random_toString w
            else (the password, w)) = (pw, w1)"
    by (cases "(if password = None \<or> password = Some [] then Math_random_toString w
            else (the password, w))")
  obtain r w2 where h: "hashPassword E pw w1 = (r, w2)"
    by (cases "hashPassword E pw w1")
  show ?thesis
  proof (cases r)
    case (Inl e)
    with assms p h show ?thesis
      by (simp add: findOrCreateUser_def)
  next
    case (Inr hash)
    obtain r' w3 where m: "users_findAndModify uid hash w2 = (r', w3)"
      by (cases "users_findAndModify uid hash w2")
    show ?thesis
    proof (cases r')
      case (Inl e)
      with assms p h Inr m show ?thesis
        by (simp add: findOrCreateUser_def)
    next
      case (Inr doc')
      with m have "\<exists>d \<in> set (Users w3). userid d = uid"
        by (auto dest: users_findAndModify_has_user)
      with p h \<open>r = Inr hash\<close> m Inr show ?thesis
        by (simp add: findOrCreateUser_def)
    qed
  qed
qed

text \<open>
  C2. Round trip: from a store with no user \<^verbatim>\<open>alice\<close>,
  \<^verbatim>\<open>findOrCreateUser("alice", "secret")\<close> followed by
  \<^verbatim>\<open>validateUser("alice", "secret")\<close> resolves to \<^verbatim>\<open>{id: "alice", message: "success"}\<close>,
  given that the store answers and that the hashing library hashes the password to a
  non-empty hash which it then verifies.
\<close>

theorem roundtrip_auth:
  assumes "store_fault w = None"
    and "\<forall>d \<in> set (Users w). userid d \<noteq> ''alice''"
    and "bcrypt_hash E ''secret'' (entropy w (entropy_next w)) = Inr h"
    and "h \<noteq> []"
    and "bcrypt_compare E ''secret'' h = Inr True"
  shows "fst (validateUser E ''alice'' ''secret''
                (snd (findOrCreateUser E ''alice'' (Some ''secret'') w))) =
           Inr \<lparr>auth_id = Some ''alice'', message = ''success''\<rparr>"
proof -
  have "findOrCreateUser E ''alice'' (Some ''secret'') w =
          (Inr None,
           w\<lparr>Users := Users w @
                [\<lparr>user_id = oid_supply w (oid_next w), userid = ''alice'', secret = Some h\<rparr>],
             oid_next := Suc (oid_next w), entropy_next := Suc (entropy_next w)\<rparr>)"
    using assms(1,2,3) by (intro findOrCreateUser_new) simp_all
  moreover have "find (\<lambda>d. userid d = ''alice'')
      (Users w @ [\<lparr>user_id = oid_supply w (oid_next w), userid = ''alice'', secret = Some h\<rparr>]) =
      Some \<lparr>user_id = oid_supply w (oid_next w), userid = ''alice'', secret = Some h\<rparr>"
    using assms(2) by (intro find_append_new) simp_all
  ultimately show ?thesis
    using assms(1,4,5)
    by (simp add: validateUser_def users_findOne_def validatePassword_def chosenSecret_def)
qed

theorem roundtrip_auth_witness:
  "fst (validateUser E0 ''alice'' ''secret''
          (snd (findOrCreateUser E0 ''alice'' (Some ''secret'') W0))) =
     Inr \<lparr>auth_id = Some ''alice'', message = ''success''\<rparr>"
  using roundtrip_auth [where w = W0 and E = E0 and h = "''$s0secret''"]
  by (simp add: W0_def E0_def)

text \<open>
  C4. Idempotent find-or-create. From a store that holds no record for the userid, a first
  call with a password (as \<^verbatim>\<open>"pw1"\<close>) and a second call with any other password (as
  \<^verbatim>\<open>"pw2"\<close>) leave exactly one User record for the userid, whose secret is the hash of
  the first password. From any store, once the first call has resolved, the second call
  leaves the Users collection as the first one left it.
\<close>

theorem findOrCreateUser_idempotent:
  "(store_fault w = None \<and> (\<forall>d \<in> set (Users w). userid d \<noteq> uid) \<and> first_pw \<noteq> [] \<and>
    bcrypt_hash E first_pw (entropy w (entropy_next w)) = Inr first_hash \<longrightarrow>
      filter (\<lambda>d. userid d = uid)
        (Users (snd (findOrCreateUser E uid second_pw
                  (snd (findOrCreateUser E uid (Some first_pw) w))))) =
        [\<lparr>user_id = oid_supply w (oid_next w), userid = uid, secret = Some first_hash\<rparr>]) \<and>
   ((\<exists>doc. fst (findOrCreateUser E uid (Some first_pw) w) = Inr doc) \<longrightarrow>
      Users (snd (findOrCreateUser E uid second_pw
               (snd (findOrCreateUser E uid (Some first_pw) w)))) =
        Users (snd (findOrCreateUser E uid (Some first_pw) w)))"
proof (intro conjI impI)
  let ?u = "\<lparr>user_id = oid_supply w (oid_next w), userid = uid, secret = Some first_hash\<rparr>"
  let ?w1 = "snd (findOrCreateUser E uid (Some first_pw) w)"
  assume "\<exists>doc. fst (findOrCreateUser E uid (Some first_pw) w) = Inr doc"
  then have "\<exists>d \<in> set (Users ?w1). userid d = uid"
    by (auto dest: findOrCreateUser_resolved_has_user)
  then show "Users (snd (findOrCreateUser E uid second_pw ?w1)) = Users ?w1"
    by (rule findOrCreateUser_existing)
next
  let ?u = "\<lparr>user_id = oid_supply w (oid_next w), userid = uid, secret = Some first_hash\<rparr>"
  let ?w1 = "snd (findOrCreateUser E uid (Some first_pw) w)"
  assume a: "store_fault w = None \<and> (\<forall>d \<in> set (Users w). userid d \<noteq> uid) \<and> first_pw \<noteq> [] \<and>
    bcrypt_hash E first_pw (entropy w (entropy_next w)) = Inr first_hash"
  then have w1: "Users ?w1 = Users w @ [?u]"
    using findOrCreateUser_new [of w uid first_pw E first_hash] by simp
  then have "\<exists>d \<in> set (Users ?w1). userid d = uid"
    by simp
  then have same: "Users (snd (findOrCreateUser E uid second_pw ?w1)) = Users ?w1"
    by (rule findOrCreateUser_existing)
  have "filter (\<lambda>d. userid d = uid) (Users w @ [?u]) = [?u]"
    using a by (intro filter_append_new) simp_all
  with same w1 show "filter (\<lambda>d. userid d = uid)
        (Users (snd (findOrCreateUser E uid second_pw ?w1))) = [?u]"
    by simp
qed

theorem findOrCreateUser_idempotent_witness:
  "filter (\<lambda>d. userid d = ''alice'')
     (Users (snd (findOrCreateUser E0 ''alice'' (Some ''pw2'')
               (snd (findOrCreateUser E0 ''alice'' (Some ''pw1'') W0))))) =
     [\<lparr>user_id = ''54759eb3c090d83494e2d804'', userid = ''alice'', secret = Some ''$s0pw1''\<rparr>] \<and>
   Users (snd (findOrCreateUser E0 ''alice'' (Some ''pw2'')
               (snd (findOrCreateUser E0 ''alice'' (Some ''pw1'') W0)))) =
   Users (snd (findOrCreateUser E0 ''alice'' (Some ''pw1'') W0))"
proof -
  note t = findOrCreateUser_idempotent [where w = W0 and E = E0 and uid = "''alice''"
      and first_pw = "''pw1''" and second_pw = "Some ''pw2''" and first_hash = "''$s0pw1''"]
  have pre: "store_fault W0 = None \<and> (\<forall>d \<in> set (Users W0). userid d \<noteq> ''alice'') \<and>
      ''pw1'' \<noteq> [] \<and> bcrypt_hash E0 ''pw1'' (entropy W0 (entropy_next W0)) = Inr ''$s0pw1''"
    by (simp add: W0_def E0_def)
  have res: "\<exists>doc. fst (findOrCreateUser E0 ''alice'' (Some ''pw1'') W0) = Inr doc"
    using pre by (simp add: findOrCreateUser_new)
  have oid: "oid_supply W0 (oid_next W0) = ''54759eb3c090d83494e2d804''"
    by (simp add: W0_def)
  from t pre res show ?thesis
    unfolding oid by blast
qed

text \<open>
  C3. What \<^verbatim>\<open>findOrCreateUser\<close> resolves to is the answer of \<^verbatim>\<open>findAndModify\<close>:
  \<^verbatim>\<open>null\<close> when the call inserted the user, the stored document when the user existed.
  In neither case is it the userid, and the two cases differ.
\<close>

theorem findOrCreateUser_resolves_doc:
  "fst (findOrCreateUser E0 ''alice'' (Some ''secret'') W0) = Inr None \<and>
   fst (findOrCreateUser E0 ''alice'' (Some ''secret'') W1) = Inr (Some alice) \<and>
   alice = \<lparr>user_id = ''54759eb3c090d83494e2d804'', userid = ''alice'',
            secret = Some ''$s0secret''\<rparr>"
  by (simp add: findOrCreateUser_def hashPassword_def Math_random_toString_def
      users_findAndModify_def ObjectID_new_def W1_def W0_def E0_def alice_def)

subsection \<open>Adding a hunt\<close>

text \<open>
  The identifier that \<^verbatim>\<open>hunts.id()\<close> hands out is new to the store: stored hunts carry
  identifiers handed out earlier, and the generator does not repeat one.
\<close>

lemma issued_id_fresh:
  assumes "inj_on (oid_supply w) {..oid_next w}" and "hunts_issued w"
  shows "\<forall>d \<in> set (Hunts w). hunt_id d \<noteq> Some (oid_supply w (oid_next w))"
proof
  fix d assume "d \<in> set (Hunts w)"
  with assms(2) obtain k where k: "k < oid_next w" "hunt_id d = Some (oid_supply w k)"
    by (auto simp: hunts_issued_def)
  have "oid_supply w k \<noteq> oid_supply w (oid_next w)"
  proof
    assume "oid_supply w k = oid_supply w (oid_next w)"
    with assms(1) k(1) have "k = oid_next w"
      by (auto dest: inj_onD)
    with k(1) show False by simp
  qed
  with k(2) show "hunt_id d \<noteq> Some (oid_supply w (oid_next w))"
    by simp
qed

lemma hunts_issued_empty: "Hunts w = [] \<Longrightarrow> hunts_issued w"
  by (simp add: hunts_issued_def)

lemma hunts_issued_mono:
  assumes "hunts_issued w" and "Hunts w' = Hunts w" and "oid_supply w' = oid_supply w"
    and "oid_next w \<le> oid_next w'"
  shows "hunts_issued w'"
  using assms unfolding hunts_issued_def by (metis order_less_le_trans)

lemma set_replaceFirst: "set (replaceFirst P y xs) \<subseteq> insert y (set xs)"
  by (induction xs) auto

text \<open>
  C7. For every hunt object, when the store answers and the generator has not repeated an
  identifier, \<^verbatim>\<open>addHunt\<close> generates an identifier that no stored hunt carries, stores
  the hunt with that identifier and the url, and resolves to the string
  \<^verbatim>\<open>'http://' + playSubdomain + '.' + domain + '/' + generatedId\<close>, where
  \<^verbatim>\<open>generatedId\<close> is the \<^verbatim>\<open>_id\<close> stored with the hunt. The generator has moved on
  by one, so that the next identifier is again new.
\<close>

theorem addHunt_url:
  assumes "heap w a = Some h"
    and "store_fault w = None"
    and "inj_on (oid_supply w) {..oid_next w}"
    and "hunts_issued w"
  shows "(\<forall>d \<in> set (Hunts w). hunt_id d \<noteq> Some (oid_supply w (oid_next w))) \<and>
         fst (addHunt E a w) =
           Inr (Some (''http://'' @ playSubdomain E @ ''.'' @ domain E @ ''/'' @
                      oid_supply w (oid_next w))) \<and>
         Hunts (snd (addHunt E a w)) =
           Hunts w @
           [h\<lparr>hunt_id := Some (oid_supply w (oid_next w)),
              url := Some (''http://'' @ playSubdomain E @ ''.'' @ domain E @ ''/'' @
                           oid_supply w (oid_next w))\<rparr>] \<and>
         oid_supply (snd (addHunt E a w)) = oid_supply w \<and>
         oid_next (snd (addHunt E a w)) = Suc (oid_next w) \<and>
         hunts_issued (snd (addHunt E a w))"
proof -
  let ?i = "oid_supply w (oid_next w)"
  let ?h = "h\<lparr>hunt_id := Some ?i,
              url := Some (''http://'' @ playSubdomain E @ ''.'' @ domain E @ ''/'' @ ?i)\<rparr>"
  have fresh: "\<forall>d \<in> set (Hunts w). hunt_id d \<noteq> Some ?i"
    using assms(3,4) by (rule issued_id_fresh)
  then have run: "addHunt E a w =
      (Inr (Some (''http://'' @ playSubdomain E @ ''.'' @ domain E @ ''/'' @ ?i)),
       w\<lparr>oid_next := Suc (oid_next w), heap := (heap w)(a \<mapsto> ?h), Hunts := Hunts w @ [?h]\<rparr>)"
    using assms(1,2)
    by (simp add: addHunt_def hunts_id_def ObjectID_new_def hunts_insert_def
        resolveMonkPromiseKey_def Let_def)
  have "hunts_issued (w\<lparr>oid_next := Suc (oid_next w), heap := (heap w)(a \<mapsto> ?h),
      Hunts := Hunts w @ [?h]\<rparr>)"
    using assms(4) unfolding hunts_issued_def by (auto intro: less_SucI)
  with fresh run show ?thesis
    by simp
qed

theorem addHunt_url_witness:
  "fst (addHunt E0 0 W_heap) = Inr (Some ''http://play.pathhero.com/54759eb3c090d83494e2d804'') \<and>
   Hunts (snd (addHunt E0 0 W_heap)) = [H1] \<and>
   fst (addHunt E0 1 W_heap2) = Inr (Some ''http://play.pathhero.com/54759eb3c090d83494e2d805'') \<and>
   Hunts (snd (addHunt E0 1 W_heap2)) =
     [H1, H0\<lparr>hunt_id := Some ''54759eb3c090d83494e2d805'',
              url := Some ''http://play.pathhero.com/54759eb3c090d83494e2d805''\<rparr>]"
proof -
  have a: "heap W_heap 0 = Some H0" "store_fault W_heap = None"
    "inj_on (oid_supply W_heap) {..oid_next W_heap}" "hunts_issued W_heap"
    by (simp_all add: W_heap_def W0_def hunts_issued_def)
  have "{..Suc 0} = {0, Suc 0}"
    by auto
  then have b: "heap W_heap2 1 = Some H0" "store_fault W_heap2 = None"
    "inj_on (oid_supply W_heap2) {..oid_next W_heap2}" "hunts_issued W_heap2"
    by (simp_all add: W_heap2_def W_hunt_def W0_def hunts_issued_def H1_def H0_def)
  from addHunt_url [OF a, of E0] addHunt_url [OF b, of E0] show ?thesis
    by (simp add: W_heap_def W_heap2_def W_hunt_def W0_def E0_def H1_def)
qed

text \<open>
  Stored hunts carry handed-out identifiers in every world the module reaches from an empty
  Hunts collection: each operation keeps it so, whether it resolves or rejects.
\<close>

lemma addHunt_issued:
  assumes "hunts_issued w"
  shows "hunts_issued (snd (addHunt E a w))"
proof (cases "heap w a")
  case None
  with assms show ?thesis
    by (simp add: addHunt_def)
next
  case (Some h)
  with assms show ?thesis
    unfolding hunts_issued_def
    by (auto simp: addHunt_def hunts_id_def ObjectID_new_def hunts_insert_def Let_def
        split: option.splits) (meson less_SucI)+
qed

lemma readers_keep_world:
  "snd (validateUser E username password w) = w \<and> snd (getHuntById huntid w) = w \<and>
   snd (getUserHunts uid w) = w \<and> snd (getAllHunts w) = w"
  by (auto simp: validateUser_def getHuntById_def getUserHunts_def getAllHunts_def Let_def
      split: sum.splits option.splits)

lemma findOrCreateUser_issued:
  assumes "hunts_issued w"
  shows "hunts_issued (snd (findOrCreateUser E uid password w))"
proof -
  let ?w = "snd (findOrCreateUser E uid password w)"
  have "Hunts ?w = Hunts w \<and> oid_supply ?w = oid_supply w \<and> oid_next w \<le> oid_next ?w"
    by (auto simp: findOrCreateUser_def hashPassword_def Math_random_toString_def
        users_findAndModify_def ObjectID_new_def split: sum.splits option.splits prod.splits)
  with assms show ?thesis
    by (auto intro: hunts_issued_mono)
qed

lemma updateHunt_issued:
  assumes "hunts_issued w"
  shows "hunts_issued (snd (updateHunt h w))"
proof (cases "\<exists>s k. hunt_id h = Some s \<and> ObjectID_cast s = Inr k \<and> store_fault w = None \<and>
    (\<exists>d \<in> set (Hunts w). hunt_id d = Some k)")
  case True
  then obtain s k d where sk: "hunt_id h = Some s" "ObjectID_cast s = Inr k" "store_fault w = None"
    "d \<in> set (Hunts w)" "hunt_id d = Some k"
    by blast
  then have w': "snd (updateHunt h w) =
      w\<lparr>Hunts := replaceFirst (\<lambda>d. hunt_id d = Some k) (h\<lparr>hunt_id := Some k\<rparr>) (Hunts w)\<rparr>"
    by (auto simp: updateHunt_def hunts_update_def)
  from assms sk obtain j where j: "j < oid_next w" "Some k = Some (oid_supply w j)"
    by (fastforce simp: hunts_issued_def)
  show ?thesis
    unfolding w' hunts_issued_def
  proof
    fix x
    assume "x \<in> set (Hunts (w\<lparr>Hunts := replaceFirst (\<lambda>d. hunt_id d = Some k)
        (h\<lparr>hunt_id := Some k\<rparr>) (Hunts w)\<rparr>))"
    then have "x = h\<lparr>hunt_id := Some k\<rparr> \<or> x \<in> set (Hunts w)"
      using set_replaceFirst [of "\<lambda>d. hunt_id d = Some k" "h\<lparr>hunt_id := Some k\<rparr>" "Hunts w"]
      by auto
    then show "\<exists>n < oid_next (w\<lparr>Hunts := replaceFirst (\<lambda>d. hunt_id d = Some k)
        (h\<lparr>hunt_id := Some k\<rparr>) (Hunts w)\<rparr>).
        hunt_id x = Some (oid_supply (w\<lparr>Hunts := replaceFirst (\<lambda>d. hunt_id d = Some k)
        (h\<lparr>hunt_id := Some k\<rparr>) (Hunts w)\<rparr>) n)"
      using j assms by (auto simp: hunts_issued_def)
  qed
next
  case False
  then have "snd (updateHunt h w) = w"
    by (auto simp: updateHunt_def hunts_update_def split: option.splits sum.splits)
  with assms show ?thesis
    by simp
qed

lemma removeHuntbyId_issued:
  assumes "hunts_issued w"
  shows "hunts_issued (snd (removeHuntbyId huntid w))"
  using assms
  by (auto simp: removeHuntbyId_def hunts_remove_def hunts_issued_def Let_def
      split: sum.splits option.splits)

text \<open>
  C9, as the code has it. \<^verbatim>\<open>addHunt\<close> writes the generated \<^verbatim>\<open>_id\<close> and the url
  into the hunt object of the caller, whether or not the insert then succeeds; the other
  fields of that object and the other objects of the caller stay as they were.
\<close>

theorem addHunt_writes_argument:
  assumes "heap w a = Some h"
  shows "heap (snd (addHunt E a w)) =
           (heap w)(a \<mapsto> h\<lparr>hunt_id := Some (oid_supply w (oid_next w)),
                            url := Some (''http://'' @ playSubdomain E @ ''.'' @ domain E @ ''/'' @
                                         oid_supply w (oid_next w))\<rparr>)"
  using assms
  by (simp add: addHunt_def hunts_id_def ObjectID_new_def hunts_insert_def
      resolveMonkPromiseKey_def Let_def split: option.splits)

theorem addHunt_writes_argument_witness:
  "heap (snd (addHunt E0 0 W_heap)) = [0 \<mapsto> H1]"
  using addHunt_writes_argument [where w = W_heap and a = 0 and h = H0 and E = E0]
  by (simp add: W_heap_def W0_def E0_def H1_def)

text \<open>
  C9, as stated, fails: the caller's object had neither \<^verbatim>\<open>_id\<close> nor \<^verbatim>\<open>url\<close> before
  the call and carries both after it.
\<close>

theorem addHunt_mutates_argument_counterexample:
  "heap W_heap 0 = Some H0 \<and> hunt_id H0 = None \<and> url H0 = None \<and>
   heap (snd (addHunt E0 0 W_heap)) 0 =
     Some (H0\<lparr>hunt_id := Some ''54759eb3c090d83494e2d804'',
              url := Some ''http://play.pathhero.com/54759eb3c090d83494e2d804''\<rparr>)"
  by (simp add: addHunt_def hunts_id_def ObjectID_new_def hunts_insert_def
      resolveMonkPromiseKey_def Let_def W_heap_def W0_def E0_def H0_def)

subsection \<open>Updating a hunt\<close>

lemma replaceFirst_find:
  "\<exists>x \<in> set xs. P x \<Longrightarrow> P y \<Longrightarrow> find P (replaceFirst P y xs) = Some y"
  by (induction xs) auto

lemma replaceFirst_others:
  "P y \<Longrightarrow> filter (\<lambda>x. \<not> P x) (replaceFirst P y xs) = filter (\<lambda>x. \<not> P x) xs"
  by (induction xs) auto

lemma replaceFirst_length: "length (replaceFirst P y xs) = length xs"
  by (induction xs) auto

text \<open>The all-zero identifier is well formed and casts to itself.\<close>

lemma ObjectID_cast_zeroId: "ObjectID_cast zeroId = Inr zeroId"
  by (simp add: ObjectID_cast_def zeroId_def isHexChar_def toLowerHex_def)

lemma hunts_update_hit:
  assumes "store_fault w = None" and "ObjectID_cast s = Inr k"
    and "\<exists>d \<in> set (Hunts w). hunt_id d = Some k"
  shows "hunts_update (Some s) h w =
           (Inr 1, w\<lparr>Hunts := replaceFirst (\<lambda>d. hunt_id d = Some k) (h\<lparr>hunt_id := Some k\<rparr>) (Hunts w)\<rparr>)"
  using assms by (simp add: hunts_update_def)

text \<open>
  C6, as the code has it. When the store answers and the \<^verbatim>\<open>_id\<close> of the hunt matches
  a stored document, \<^verbatim>\<open>updateHunt\<close> replaces that document by the given hunt as a
  whole: the document stored under the identifier is the argument (so its url and its
  huntName are the argument's), and the documents under other identifiers and the number
  of documents are unchanged. When the \<^verbatim>\<open>_id\<close> matches no stored document, the world is
  unchanged.
\<close>

theorem updateHunt_replaces:
  "(store_fault w = None \<and> hunt_id h = Some s \<and> ObjectID_cast s = Inr k \<and>
    (\<exists>d \<in> set (Hunts w). hunt_id d = Some k) \<longrightarrow>
      find (\<lambda>d. hunt_id d = Some k) (Hunts (snd (updateHunt h w))) = Some (h\<lparr>hunt_id := Some k\<rparr>) \<and>
      filter (\<lambda>d. hunt_id d \<noteq> Some k) (Hunts (snd (updateHunt h w))) =
        filter (\<lambda>d. hunt_id d \<noteq> Some k) (Hunts w) \<and>
      length (Hunts (snd (updateHunt h w))) = length (Hunts w)) \<and>
   ((\<forall>s k. hunt_id h = Some s \<and> ObjectID_cast s = Inr k \<longrightarrow>
        (\<forall>d \<in> set (Hunts w). hunt_id d \<noteq> Some k)) \<longrightarrow>
      snd (updateHunt h w) = w)"
proof (intro conjI impI)
  assume a: "store_fault w = None \<and> hunt_id h = Some s \<and> ObjectID_cast s = Inr k \<and>
    (\<exists>d \<in> set (Hunts w). hunt_id d = Some k)"
  then have hit: "Hunts (snd (updateHunt h w)) =
      replaceFirst (\<lambda>d. hunt_id d = Some k) (h\<lparr>hunt_id := Some k\<rparr>) (Hunts w)"
    by (simp add: updateHunt_def hunts_update_hit)
  show "find (\<lambda>d. hunt_id d = Some k) (Hunts (snd (updateHunt h w))) = Some (h\<lparr>hunt_id := Some k\<rparr>)"
    using a by (simp add: hit replaceFirst_find)
  show "filter (\<lambda>d. hunt_id d \<noteq> Some k) (Hunts (snd (updateHunt h w))) =
        filter (\<lambda>d. hunt_id d \<noteq> Some k) (Hunts w)"
  proof -
    have "filter (\<lambda>d. \<not> hunt_id d = Some k)
            (replaceFirst (\<lambda>d. hunt_id d = Some k) (h\<lparr>hunt_id := Some k\<rparr>) (Hunts w)) =
          filter (\<lambda>d. \<not> hunt_id d = Some k) (Hunts w)"
      by (rule replaceFirst_others) simp
    then show ?thesis
      by (simp add: hit)
  qed
  show "length (Hunts (snd (updateHunt h w))) = length (Hunts w)"
    by (simp add: hit replaceFirst_length)
next
  assume "\<forall>s k. hunt_id h = Some s \<and> ObjectID_cast s = Inr k \<longrightarrow>
        (\<forall>d \<in> set (Hunts w). hunt_id d \<noteq> Some k)"
  then show "snd (updateHunt h w) = w"
    by (auto simp: updateHunt_def hunts_update_def split: option.splits sum.splits)
qed

theorem updateHunt_replaces_witness:
  "find (\<lambda>d. hunt_id d = Some ''54759eb3c090d83494e2d804'') (Hunts (snd (updateHunt H1_edit W_hunt))) =
     Some H1_edit \<and>
   snd (updateHunt H1_edit W0) = W0"
  using updateHunt_replaces [where w = W_hunt and h = H1_edit
      and s = "''54759eb3c090d83494e2d804''" and k = "''54759eb3c090d83494e2d804''"]
    updateHunt_replaces [where w = W0 and h = H1_edit]
  by (simp add: W_hunt_def W0_def H1_edit_def H1_def H0_def ObjectID_cast_def isHexChar_def
      toLowerHex_def)

text \<open>
  C6, as stated, fails: an update whose hunt carries another url than the stored one
  leaves the stored document with the url of the argument, and what the call resolves to
  is the number of documents changed.
\<close>

theorem updateHunt_url_counterexample:
  "Hunts W_hunt = [H1] \<and> hunt_id H1_edit = hunt_id H1 \<and>
   fst (updateHunt H1_edit W_hunt) = Inr 1 \<and>
   Hunts (snd (updateHunt H1_edit W_hunt)) = [H1_edit] \<and>
   url H1 = Some ''http://play.pathhero.com/54759eb3c090d83494e2d804'' \<and>
   url H1_edit = Some ''http://example.org/elsewhere''"
  by (simp add: updateHunt_def hunts_update_def resolveMonkPromise_def W_hunt_def W0_def
      H1_edit_def H1_def H0_def ObjectID_cast_def isHexChar_def toLowerHex_def)

subsection \<open>Reading and removing a hunt by its identifier\<close>

text \<open>
  C5, as the code has it. For every identifier whose length is neither 12 nor 24, both
  \<^verbatim>\<open>getHuntById\<close> and \<^verbatim>\<open>removeHuntbyId\<close> query the store with the all-zero identifier
  \<^verbatim>\<open>000000000000000000000000\<close> instead; when the store answers and no hunt is stored
  under the all-zero identifier, \<^verbatim>\<open>getHuntById\<close> resolves to \<^verbatim>\<open>null\<close> and
  \<^verbatim>\<open>removeHuntbyId\<close> removes nothing.
\<close>

theorem malformed_length_id:
  assumes "length huntid \<noteq> 12" and "length huntid \<noteq> 24"
  shows "getHuntById huntid w =
           (resolveMonkPromise (hunts_findOne ''000000000000000000000000'' w), w) \<and>
         removeHuntbyId huntid w =
           (resolveMonkPromise (fst (hunts_remove ''000000000000000000000000'' w)),
            snd (hunts_remove ''000000000000000000000000'' w)) \<and>
         (store_fault w = None \<and>
          (\<forall>d \<in> set (Hunts w). hunt_id d \<noteq> Some ''000000000000000000000000'') \<longrightarrow>
            getHuntById huntid w = (Inr None, w) \<and> snd (removeHuntbyId huntid w) = w)"
proof (intro conjI impI)
  show g: "getHuntById huntid w =
           (resolveMonkPromise (hunts_findOne ''000000000000000000000000'' w), w)"
    using assms by (simp add: getHuntById_def zeroId_def)
  show r: "removeHuntbyId huntid w =
           (resolveMonkPromise (fst (hunts_remove ''000000000000000000000000'' w)),
            snd (hunts_remove ''000000000000000000000000'' w))"
    using assms by (simp add: removeHuntbyId_def zeroId_def split: prod.splits)
  assume a: "store_fault w = None \<and>
          (\<forall>d \<in> set (Hunts w). hunt_id d \<noteq> Some ''000000000000000000000000'')"
  then have none: "find (\<lambda>d. hunt_id d = Some zeroId) (Hunts w) = None"
    by (simp add: find_None_iff zeroId_def)
  from a have all: "filter (\<lambda>d. hunt_id d \<noteq> Some zeroId) (Hunts w) = Hunts w"
    by (simp add: zeroId_def)
  show "getHuntById huntid w = (Inr None, w)"
    using a none ObjectID_cast_zeroId
    by (simp add: g hunts_findOne_def resolveMonkPromise_def zeroId_def)
  show "snd (removeHuntbyId huntid w) = w"
    using a all ObjectID_cast_zeroId
    by (simp add: r hunts_remove_def zeroId_def)
qed

theorem malformed_length_id_witness:
  "getHuntById ''not-a-valid-id'' W_hunt = (Inr None, W_hunt) \<and>
   snd (removeHuntbyId ''not-a-valid-id'' W_hunt) = W_hunt"
proof -
  have len: "length ''not-a-valid-id'' \<noteq> 12" "length ''not-a-valid-id'' \<noteq> 24"
    by simp_all
  have pre: "store_fault W_hunt = None \<and>
      (\<forall>d \<in> set (Hunts W_hunt). hunt_id d \<noteq> Some ''000000000000000000000000'')"
    by (simp add: W_hunt_def W0_def H1_def H0_def)
  from malformed_length_id [OF len, of W_hunt] pre show ?thesis
    by blast
qed

text \<open>
  C5, as stated, fails: an identifier of 24 characters that are not hexadecimal is not
  well formed, yet passes the guard on the length, is not replaced, and the store rejects
  it.
\<close>

theorem malformed_hex_id_counterexample:
  "length ''zzzzzzzzzzzzzzzzzzzzzzzz'' = 24 \<and>
   fst (getHuntById ''zzzzzzzzzzzzzzzzzzzzzzzz'' W0) =
     Inl (StoreError ''Argument passed in must be a single String of 12 bytes or a string of 24 hex characters'') \<and>
   fst (removeHuntbyId ''zzzzzzzzzzzzzzzzzzzzzzzz'' W0) =
     Inl (StoreError ''Argument passed in must be a single String of 12 bytes or a string of 24 hex characters'')"
  by (simp add: getHuntById_def removeHuntbyId_def hunts_findOne_def hunts_remove_def
      resolveMonkPromise_def ObjectID_cast_def isHexChar_def zeroId_def)

end
